theory Spec2Isabelle
  imports Complex_Main "HOL-Library.Char_ord" "HOL-Library.List_Lexorder"
begin

section \<open>Python values, dictionaries and exceptions\<close>

text \<open>
  The values that occur in the dictionaries of \<^verbatim>\<open>app/api/tickets.py\<close>: \<^verbatim>\<open>None\<close>, booleans,
  unbounded integers, finite floats (as the real number they denote; an order comparison
  of two floats or of a float and an integer is exact), strings, and datetimes. A datetime
  is offset-naive (a wall-clock reading) or offset-aware (an instant); \<^verbatim>\<open>fields.DateTime\<close>
  gives either, after the text it parses.
\<close>

datatype datetime = Naive int | Aware int

datatype pyval = PNone | PBool bool | PInt int | PFloat real | PStr string | PDateTime datetime

text \<open>The text of an exception: a literal, or a template with the arguments of \<^verbatim>\<open>format\<close>.\<close>

datatype detail = Literal string | Format string "pyval list"

text \<open>
  Every exception the file raises or lets through. \<open>ObjectNotFound p d\<close> is
  \<^verbatim>\<open>ObjectNotFound({'parameter': p}, d)\<close>, \<open>UnprocessableEntity p d\<close> is
  \<^verbatim>\<open>UnprocessableEntity({'pointer': p}, d)\<close>. \<open>NoResultFound\<close> and
  \<open>MultipleResultsFound\<close> are what \<^verbatim>\<open>Query.one()\<close> raises, \<open>ValidationError\<close> is what a
  field validator that returns \<^verbatim>\<open>False\<close> gives.
\<close>

datatype error =
    ObjectNotFound string detail
  | UnprocessableEntity string detail
  | KeyError string
  | TypeError
  | NoResultFound
  | MultipleResultsFound
  | ValidationError

type_synonym pydict = "string \<rightharpoonup> pyval"

text \<open>\<^verbatim>\<open>d.get(k)\<close>: the value, \<^verbatim>\<open>None\<close> for a missing key.\<close>

definition get :: "pydict \<Rightarrow> string \<Rightarrow> pyval" where
  "get d k = (case d k of None \<Rightarrow> PNone | Some v \<Rightarrow> v)"

text \<open>The truth value Python's \<^verbatim>\<open>if\<close> gives a value.\<close>

fun truthy :: "pyval \<Rightarrow> bool" where
  "truthy PNone = False"
| "truthy (PBool b) = b"
| "truthy (PInt n) = (n \<noteq> 0)"
| "truthy (PFloat x) = (x \<noteq> 0)"
| "truthy (PStr s) = (s \<noteq> [])"
| "truthy (PDateTime t) = True"

fun num_of :: "pyval \<Rightarrow> real option" where
  "num_of (PBool b) = Some (if b then 1 else 0)"
| "num_of (PInt n) = Some (of_int n)"
| "num_of (PFloat x) = Some x"
| "num_of v = None"

text \<open>
  Ordering two datetimes: two naive ones and two aware ones compare by time; a naive one
  against an aware one is a \<^verbatim>\<open>TypeError\<close>.
\<close>

fun datetime_lt :: "datetime \<Rightarrow> datetime \<Rightarrow> error + bool" where
  "datetime_lt (Naive a) (Naive b) = Inr (a < b)"
| "datetime_lt (Aware a) (Aware b) = Inr (a < b)"
| "datetime_lt (Naive a) (Aware b) = Inl TypeError"
| "datetime_lt (Aware a) (Naive b) = Inl TypeError"

fun datetime_ge :: "datetime \<Rightarrow> datetime \<Rightarrow> error + bool" where
  "datetime_ge (Naive a) (Naive b) = Inr (a \<ge> b)"
| "datetime_ge (Aware a) (Aware b) = Inr (a \<ge> b)"
| "datetime_ge (Naive a) (Aware b) = Inl TypeError"
| "datetime_ge (Aware a) (Naive b) = Inl TypeError"

text \<open>
  \<^verbatim>\<open>a < b\<close> and \<^verbatim>\<open>a >= b\<close>: numbers compare by value, strings lexicographically, datetimes
  as above; any other pair (\<^verbatim>\<open>None\<close> against a number, say) is a \<^verbatim>\<open>TypeError\<close>, as in
  Python 3.
\<close>

definition py_lt :: "pyval \<Rightarrow> pyval \<Rightarrow> error + bool" where
  "py_lt a b =
     (case (num_of a, num_of b) of
        (Some x, Some y) \<Rightarrow> Inr (x < y)
      | _ \<Rightarrow>
        (case (a, b) of
           (PStr s, PStr t) \<Rightarrow> Inr (s < t)
         | (PDateTime s, PDateTime t) \<Rightarrow> datetime_lt s t
         | _ \<Rightarrow> Inl TypeError))"

definition py_ge :: "pyval \<Rightarrow> pyval \<Rightarrow> error + bool" where
  "py_ge a b =
     (case (num_of a, num_of b) of
        (Some x, Some y) \<Rightarrow> Inr (x \<ge> y)
      | _ \<Rightarrow>
        (case (a, b) of
           (PStr s, PStr t) \<Rightarrow> Inr (s \<ge> t)
         | (PDateTime s, PDateTime t) \<Rightarrow> datetime_ge s t
         | _ \<Rightarrow> Inl TypeError))"

text \<open>\<^verbatim>\<open>Query.one()\<close> on the rows a query selects.\<close>

fun one :: "'a list \<Rightarrow> error + 'a" where
  "one [] = Inl NoResultFound"
| "one [x] = Inr x"
| "one (x # y # zs) = Inl MultipleResultsFound"

section \<open>The models the file reads\<close>

text \<open>
  Of each model only the columns and relationships \<^verbatim>\<open>tickets.py\<close> touches; a field
  \<open>M_c\<close> is the column \<^verbatim>\<open>M.c\<close>. A row of \<^verbatim>\<open>ticket_tags_table\<close> is the pair
  \<open>(ticket_id, ticket_tag_id)\<close>. The two dates of a ticket are whatever value the
  attribute holds: \<^verbatim>\<open>validate_date\<close> copies it as it is.
\<close>

record access_code =
  AccessCode_id :: int

record ticket_tag =
  TicketTag_id :: int

record ticket =
  Ticket_id :: int
  Ticket_sales_starts_at :: pyval
  Ticket_sales_ends_at :: pyval
  Ticket_access_codes :: "access_code list"

record order =
  Order_id :: int
  Order_identifer :: string
  Order_tickets :: "ticket list"

record ticket_holder =
  TicketHolder_id :: int
  TicketHolder_ticket_id :: "int option"

record database =
  Ticket_rows :: "ticket list"
  TicketTag_rows :: "ticket_tag list"
  ticket_tags_table :: "(int \<times> int) list"
  AccessCode_rows :: "access_code list"
  Order_rows :: "order list"
  TicketHolder_rows :: "ticket_holder list"

text \<open>
  Modelled from the spec: \<^verbatim>\<open>safe_query\<close> of \<^verbatim>\<open>app.api.helpers.db\<close> is imported, its body is
  not among the sources. The spec gives one outcome for a referenced entity that is
  missing, \<^verbatim>\<open>ObjectNotFound\<close>; so \<open>safe_query rows name column value parameter_name\<close> is
  the first row of the model whose column holds the value, and \<^verbatim>\<open>ObjectNotFound\<close> for the
  caller's parameter name when there is none. The text of the error is not fixed by the
  spec, and no theorem below depends on it.
\<close>

definition safe_query ::
  "'r list \<Rightarrow> string \<Rightarrow> ('r \<Rightarrow> pyval) \<Rightarrow> pyval \<Rightarrow> string \<Rightarrow> error + 'r" where
  "safe_query rows name column v parameter_name =
     (case find (\<lambda>r. column r = v) rows of
        None \<Rightarrow> Inl (ObjectNotFound parameter_name
                   (Format ''{}: {} not found'' [PStr name, v]))
      | Some r \<Rightarrow> Inr r)"

section \<open>TicketSchema\<close>

text \<open>
  \<open>data\<close> is the deserialised payload, a dictionary from attribute names to values.
  Of \<^verbatim>\<open>original_data\<close> the validator reads one thing, the member \<^verbatim>\<open>'id'\<close> of
  \<^verbatim>\<open>original_data['data']\<close>: \<open>None\<close> when the key is missing, else the ticket id it
  denotes.
\<close>

record original_data =
  data_id :: "int option"

text \<open>
  Lines 30 to 37 of \<^verbatim>\<open>validate_date\<close>: on an update the ticket is fetched with
  \<^verbatim>\<open>Ticket.query.filter_by(id=...).one()\<close> and the dates the payload lacks are copied
  from it into \<open>data\<close>.
\<close>

definition backfill_dates :: "ticket list \<Rightarrow> pydict \<Rightarrow> original_data \<Rightarrow> error + pydict" where
  "backfill_dates rows data original =
     (case data_id original of
        None \<Rightarrow> Inr data
      | Some i \<Rightarrow>
        (case one (filter (\<lambda>t. Ticket_id t = i) rows) of
           Inl e \<Rightarrow> Inl e
         | Inr ticket \<Rightarrow>
           (let data1 = (if data ''sales_starts_at'' = None
                         then data(''sales_starts_at'' \<mapsto> Ticket_sales_starts_at ticket)
                         else data);
                data2 = (if data1 ''sales_ends_at'' = None
                         then data1(''sales_ends_at'' \<mapsto> Ticket_sales_ends_at ticket)
                         else data1)
            in Inr data2)))"

text \<open>
  \<^verbatim>\<open>validate_date\<close>: the back-fill, then line 39. The dictionary is changed in place, so
  the result on success is the dictionary as the validator leaves it.
\<close>

definition validate_date :: "ticket list \<Rightarrow> pydict \<Rightarrow> original_data \<Rightarrow> error + pydict" where
  "validate_date rows data original =
     (case backfill_dates rows data original of
        Inl e \<Rightarrow> Inl e
      | Inr data' \<Rightarrow>
        (case data' ''sales_starts_at'' of
           None \<Rightarrow> Inl (KeyError ''sales_starts_at'')
         | Some s \<Rightarrow>
           (case data' ''sales_ends_at'' of
              None \<Rightarrow> Inl (KeyError ''sales_ends_at'')
            | Some e \<Rightarrow>
              (case py_ge s e of
                 Inl err \<Rightarrow> Inl err
               | Inr b \<Rightarrow>
                   if b then Inl (UnprocessableEntity ''/data/attributes/sales-ends-at''
                                    (Literal ''sales-ends-at should be after sales-starts-at''))
                   else Inr data'))))"

text \<open>Lines 45 to 48 and lines 50 to 53 of \<^verbatim>\<open>validate_quantity\<close>.\<close>

definition check_max_order :: "pydict \<Rightarrow> error + unit" where
  "check_max_order data =
     (case (data ''max_order'', data ''min_order'') of
        (Some mx, Some mn) \<Rightarrow>
          (case py_lt mx mn of
             Inl err \<Rightarrow> Inl err
           | Inr b \<Rightarrow>
               if b then Inl (UnprocessableEntity ''/data/attributes/max-order''
                                (Literal ''max-order should be greater than min-order''))
               else Inr ())
      | _ \<Rightarrow> Inr ())"

definition check_quantity :: "pydict \<Rightarrow> error + unit" where
  "check_quantity data =
     (case (data ''quantity'', data ''min_order'') of
        (Some q, Some mn) \<Rightarrow>
          (case py_lt q mn of
             Inl err \<Rightarrow> Inl err
           | Inr b \<Rightarrow>
               if b then Inl (UnprocessableEntity ''/data/attributes/quantity''
                                (Literal ''quantity should be greater than min-order''))
               else Inr ())
      | _ \<Rightarrow> Inr ())"

definition validate_quantity :: "pydict \<Rightarrow> error + unit" where
  "validate_quantity data =
     (case check_max_order data of
        Inl e \<Rightarrow> Inl e
      | Inr u \<Rightarrow> check_quantity data)"

text \<open>
  A schema field as far as lines 59 to 68 configure it: the \<^verbatim>\<open>validate\<close> callable and
  \<^verbatim>\<open>allow_none\<close>. \<open>deserialize\<close> is what marshmallow does with a value of the field's
  type: \<^verbatim>\<open>None\<close> passes when \<^verbatim>\<open>allow_none\<close> is set and is refused otherwise, without
  the validator being called; any other value is refused when the validator returns
  \<^verbatim>\<open>False\<close>.
\<close>

record field =
  validate :: "pyval \<Rightarrow> error + bool"
  allow_none :: bool

definition deserialize :: "field \<Rightarrow> pyval \<Rightarrow> error + pyval" where
  "deserialize f v =
     (if v = PNone then (if allow_none f then Inr PNone else Inl ValidationError)
      else (case validate f v of
              Inl e \<Rightarrow> Inl e
            | Inr b \<Rightarrow> if b then Inr v else Inl ValidationError))"

text \<open>\<^verbatim>\<open>lambda n: n >= 0\<close>\<close>

definition nonneg :: "pyval \<Rightarrow> error + bool" where
  "nonneg n = py_ge n (PInt 0)"

definition price :: field where
  "price = \<lparr>validate = nonneg, allow_none = True\<rparr>"

definition quantity :: field where
  "quantity = \<lparr>validate = nonneg, allow_none = True\<rparr>"

definition min_order :: field where
  "min_order = \<lparr>validate = nonneg, allow_none = True\<rparr>"

definition max_order :: field where
  "max_order = \<lparr>validate = nonneg, allow_none = True\<rparr>"

section \<open>TicketListPost\<close>

text \<open>
  \<^verbatim>\<open>require_relationship\<close> and \<^verbatim>\<open>has_access\<close> are imported helpers whose bodies are not
  among the sources: \<open>before_post\<close> takes them as parameters. The subscripts
  \<^verbatim>\<open>data['event']\<close> and \<^verbatim>\<open>data['event_id']\<close> raise \<^verbatim>\<open>KeyError\<close> on a missing key; the
  second one is evaluated while the text of the error is built, before anything is raised.
\<close>

definition before_post ::
  "(string list \<Rightarrow> pydict \<Rightarrow> error + unit) \<Rightarrow> (string \<Rightarrow> pyval \<Rightarrow> bool) \<Rightarrow> pydict \<Rightarrow> error + unit" where
  "before_post require_relationship has_access data =
     (case require_relationship [''event''] data of
        Inl e \<Rightarrow> Inl e
      | Inr u \<Rightarrow>
        (case data ''event'' of
           None \<Rightarrow> Inl (KeyError ''event'')
         | Some ev \<Rightarrow>
           if \<not> has_access ''is_coorganizer'' ev then
             (case data ''event_id'' of
                None \<Rightarrow> Inl (KeyError ''event_id'')
              | Some v \<Rightarrow> Inl (ObjectNotFound ''event_id'' (Format ''Event: {} not found'' [v])))
           else Inr ()))"

section \<open>TicketList\<close>

text \<open>
  A query is modelled by the list of tickets it selects; \<^verbatim>\<open>self.session.query(Ticket)\<close>
  and \<^verbatim>\<open>Ticket.query\<close> both select every row of the table. \<^verbatim>\<open>event_query\<close> is an
  imported helper whose body is not among the sources: it is a parameter that maps a
  query and \<^verbatim>\<open>view_kwargs\<close> to a query, or raises.

  Lines 124 to 132: the ticket-tag branch, \<^verbatim>\<open>event_query\<close>, the access-code branch.
\<close>

definition query_upto_access_code ::
  "database \<Rightarrow> (ticket list \<Rightarrow> pydict \<Rightarrow> error + ticket list) \<Rightarrow> pydict \<Rightarrow> error + ticket list" where
  "query_upto_access_code db event_query view_kwargs =
     (case (if truthy (get view_kwargs ''ticket_tag_id'')
            then (case safe_query (TicketTag_rows db) ''TicketTag'' (\<lambda>r. PInt (TicketTag_id r))
                         (get view_kwargs ''ticket_tag_id'') ''ticket_tag_id'' of
                    Inl e \<Rightarrow> Inl e
                  | Inr ticket_tag \<Rightarrow>
                      Inr (filter (\<lambda>t. (Ticket_id t, TicketTag_id ticket_tag) \<in> set (ticket_tags_table db))
                             (Ticket_rows db)))
            else Inr (Ticket_rows db)) of
        Inl e \<Rightarrow> Inl e
      | Inr query1 \<Rightarrow>
        (case event_query query1 view_kwargs of
           Inl e \<Rightarrow> Inl e
         | Inr query2 \<Rightarrow>
           if truthy (get view_kwargs ''access_code_id'')
           then (case safe_query (AccessCode_rows db) ''AccessCode'' (\<lambda>r. PInt (AccessCode_id r))
                        (get view_kwargs ''access_code_id'') ''access_code_id'' of
                   Inl e \<Rightarrow> Inl e
                 | Inr access_code \<Rightarrow>
                     Inr (filter (\<lambda>t. AccessCode_id access_code \<in> set (map AccessCode_id (Ticket_access_codes t)))
                            (Ticket_rows db)))
           else Inr query2))"

text \<open>
  Lines 134 to 142, on the query built so far: an \<^verbatim>\<open>order_identifier\<close> is resolved into
  \<^verbatim>\<open>view_kwargs['order_id']\<close> (the column is spelled \<^verbatim>\<open>identifer\<close> in the source, the
  parameter \<^verbatim>\<open>order_identifer\<close>), then the query is filtered by the ids of the order's
  tickets. The result is the query together with \<^verbatim>\<open>view_kwargs\<close> as the function leaves it.
\<close>

definition query_order :: "database \<Rightarrow> ticket list \<Rightarrow> pydict \<Rightarrow> error + (ticket list \<times> pydict)" where
  "query_order db query0 view_kwargs =
     (case (if truthy (get view_kwargs ''order_identifier'')
            then (case safe_query (Order_rows db) ''Order'' (\<lambda>r. PStr (Order_identifer r))
                         (get view_kwargs ''order_identifier'') ''order_identifer'' of
                    Inl e \<Rightarrow> Inl e
                  | Inr order \<Rightarrow> Inr (view_kwargs(''order_id'' \<mapsto> PInt (Order_id order))))
            else Inr view_kwargs) of
        Inl e \<Rightarrow> Inl e
      | Inr view_kwargs' \<Rightarrow>
        if truthy (get view_kwargs' ''order_id'')
        then (case safe_query (Order_rows db) ''Order'' (\<lambda>r. PInt (Order_id r))
                     (get view_kwargs' ''order_id'') ''order_id'' of
                Inl e \<Rightarrow> Inl e
              | Inr order \<Rightarrow>
                  (let ticket_ids = map Ticket_id (Order_tickets order)
                   in Inr (filter (\<lambda>t. Ticket_id t \<in> set ticket_ids) query0, view_kwargs')))
        else Inr (query0, view_kwargs'))"

text \<open>\<^verbatim>\<open>TicketList.query\<close>: the two parts in sequence.\<close>

definition TicketList_query ::
  "database \<Rightarrow> (ticket list \<Rightarrow> pydict \<Rightarrow> error + ticket list) \<Rightarrow> pydict
     \<Rightarrow> error + (ticket list \<times> pydict)" where
  "TicketList_query db event_query view_kwargs =
     (case query_upto_access_code db event_query view_kwargs of
        Inl e \<Rightarrow> Inl e
      | Inr query0 \<Rightarrow> query_order db query0 view_kwargs)"

section \<open>TicketDetail\<close>

text \<open>
  \<^verbatim>\<open>before_get_object\<close> changes \<^verbatim>\<open>view_kwargs\<close> in place: the result is the dictionary as
  it leaves it. The test is \<^verbatim>\<open>is not None\<close>, not truth: an \<^verbatim>\<open>attendee_id\<close> of 0 is looked
  up like any other.
\<close>

definition before_get_object :: "database \<Rightarrow> pydict \<Rightarrow> error + pydict" where
  "before_get_object db view_kwargs =
     (if get view_kwargs ''attendee_id'' \<noteq> PNone
      then (case safe_query (TicketHolder_rows db) ''TicketHolder'' (\<lambda>r. PInt (TicketHolder_id r))
                   (get view_kwargs ''attendee_id'') ''attendee_id'' of
              Inl e \<Rightarrow> Inl e
            | Inr attendee \<Rightarrow>
                (case TicketHolder_ticket_id attendee of
                   Some ticket_id \<Rightarrow> Inr (view_kwargs(''id'' \<mapsto> PInt ticket_id))
                 | None \<Rightarrow> Inr (view_kwargs(''id'' \<mapsto> PNone))))
      else Inr view_kwargs)"

section \<open>Predicates and example data for the theorems\<close>

text \<open>The result is an \<^verbatim>\<open>UnprocessableEntity\<close> with the given pointer.\<close>

fun unprocessable_at :: "string \<Rightarrow> error + 'a \<Rightarrow> bool" where
  "unprocessable_at p (Inl (UnprocessableEntity q d)) = (q = p)"
| "unprocessable_at p r = False"

text \<open>The result is an \<^verbatim>\<open>ObjectNotFound\<close> for the given parameter.\<close>

fun not_found_for :: "string \<Rightarrow> error + 'a \<Rightarrow> bool" where
  "not_found_for p (Inl (ObjectNotFound q d)) = (q = p)"
| "not_found_for p r = False"

text \<open>
  The stored ticket a payload is checked against: none for a create (no \<^verbatim>\<open>id\<close> in
  \<^verbatim>\<open>original_data['data']\<close>), the one row with that id for an update.
\<close>

definition update_target :: "ticket list \<Rightarrow> original_data \<Rightarrow> ticket option \<Rightarrow> bool" where
  "update_target rows original stored =
     (case data_id original of
        None \<Rightarrow> stored = None
      | Some i \<Rightarrow>
        (case stored of
           None \<Rightarrow> False
         | Some ticket \<Rightarrow> filter (\<lambda>t. Ticket_id t = i) rows = [ticket]))"

text \<open>
  The effective value of a date, in the words of the specification: the payload's value
  when the payload has the key, otherwise the stored ticket's value when there is a
  stored ticket.
\<close>

definition effective :: "pydict \<Rightarrow> string \<Rightarrow> pyval option \<Rightarrow> pyval option" where
  "effective data k stored = (case data k of None \<Rightarrow> stored | Some v \<Rightarrow> Some v)"

text \<open>An \<^verbatim>\<open>event_query\<close> that leaves the query as it is.\<close>

definition event_query_none :: "ticket list \<Rightarrow> pydict \<Rightarrow> error + ticket list" where
  "event_query_none query0 view_kwargs = Inr query0"

text \<open>
  A small database: ticket 1 carries tag 10 and has no access code, ticket 2 is linked to
  access code 20 and carries no tag, both on sale from instant 100 to instant 200; order 7 (identifier \<^verbatim>\<open>abc\<close>) holds ticket 1; attendee 0
  holds ticket 2 and attendee 5 holds none.
\<close>

definition ticket1 :: ticket where
  "ticket1 = \<lparr>Ticket_id = 1, Ticket_sales_starts_at = PDateTime (Aware 100),
               Ticket_sales_ends_at = PDateTime (Aware 200),
               Ticket_access_codes = []\<rparr>"

definition ticket2 :: ticket where
  "ticket2 = \<lparr>Ticket_id = 2, Ticket_sales_starts_at = PDateTime (Aware 100),
               Ticket_sales_ends_at = PDateTime (Aware 200),
               Ticket_access_codes = [\<lparr>AccessCode_id = 20\<rparr>]\<rparr>"

definition order7 :: order where
  "order7 = \<lparr>Order_id = 7, Order_identifer = ''abc'', Order_tickets = [ticket1]\<rparr>"

definition attendee0 :: ticket_holder where
  "attendee0 = \<lparr>TicketHolder_id = 0, TicketHolder_ticket_id = Some 2\<rparr>"

definition attendee5 :: ticket_holder where
  "attendee5 = \<lparr>TicketHolder_id = 5, TicketHolder_ticket_id = None\<rparr>"

definition db1 :: database where
  "db1 = \<lparr>Ticket_rows = [ticket1, ticket2],
           TicketTag_rows = [\<lparr>TicketTag_id = 10\<rparr>],
           ticket_tags_table = [(1, 10)],
           AccessCode_rows = [\<lparr>AccessCode_id = 20\<rparr>],
           Order_rows = [order7],
           TicketHolder_rows = [attendee0, attendee5]\<rparr>"

section \<open>Auxiliary facts\<close>

lemma py_lt_int: "py_lt (PInt a) (PInt b) = Inr (a < b)"
  by (simp add: py_lt_def)

lemma py_ge_datetime: "py_ge (PDateTime s) (PDateTime e) = datetime_ge s e"
  by (simp add: py_ge_def)

lemma datetime_lt_error: "datetime_lt s e = Inl err \<Longrightarrow> err = TypeError"
  by (cases s; cases e) auto

lemma datetime_ge_error: "datetime_ge s e = Inl err \<Longrightarrow> err = TypeError"
  by (cases s; cases e) auto

lemma py_lt_error: "py_lt a b = Inl err \<Longrightarrow> err = TypeError"
  by (auto simp: py_lt_def dest: datetime_lt_error split: option.splits pyval.splits)

lemma py_ge_error: "py_ge a b = Inl err \<Longrightarrow> err = TypeError"
  by (auto simp: py_ge_def dest: datetime_ge_error split: option.splits pyval.splits)

lemma one_error: "one xs = Inl err \<Longrightarrow> err = NoResultFound \<or> err = MultipleResultsFound"
  by (cases xs rule: one.cases) auto

lemma backfill_dates_error:
  "backfill_dates rows data original = Inl err \<Longrightarrow> err = NoResultFound \<or> err = MultipleResultsFound"
  by (auto simp: backfill_dates_def Let_def dest: one_error split: option.splits sum.splits if_splits)

lemma backfill_dates_effective:
  assumes "update_target rows original stored"
    and "effective data ''sales_starts_at'' (map_option Ticket_sales_starts_at stored) = Some sv"
    and "effective data ''sales_ends_at'' (map_option Ticket_sales_ends_at stored) = Some ev"
  shows "backfill_dates rows data original =
           Inr (data(''sales_starts_at'' \<mapsto> sv, ''sales_ends_at'' \<mapsto> ev))"
proof (cases "data_id original")
  case None
  with assms(1) have "stored = None"
    by (simp add: update_target_def)
  with assms(2,3) have "data ''sales_starts_at'' = Some sv" and "data ''sales_ends_at'' = Some ev"
    by (auto simp: effective_def split: option.splits)
  then have "data(''sales_starts_at'' \<mapsto> sv, ''sales_ends_at'' \<mapsto> ev) = data"
    by (auto simp: fun_eq_iff)
  with None show ?thesis
    by (simp add: backfill_dates_def)
next
  case (Some i)
  with assms(1) obtain ticket where t: "stored = Some ticket"
    and f: "filter (\<lambda>t. Ticket_id t = i) rows = [ticket]"
    by (auto simp: update_target_def split: option.splits)
  from assms(2,3) t have "(if data ''sales_starts_at'' = None
            then data(''sales_starts_at'' \<mapsto> Ticket_sales_starts_at ticket) else data)
         = data(''sales_starts_at'' \<mapsto> sv)"
    by (auto simp: effective_def fun_eq_iff split: option.splits)
  moreover from assms(2,3) t have
    "(if (data(''sales_starts_at'' \<mapsto> sv)) ''sales_ends_at'' = None
      then (data(''sales_starts_at'' \<mapsto> sv))(''sales_ends_at'' \<mapsto> Ticket_sales_ends_at ticket)
      else data(''sales_starts_at'' \<mapsto> sv))
     = data(''sales_starts_at'' \<mapsto> sv, ''sales_ends_at'' \<mapsto> ev)"
    by (auto simp: effective_def fun_eq_iff split: option.splits)
  ultimately show ?thesis
    using Some f by (simp add: backfill_dates_def Let_def)
qed

lemma validate_date_effective:
  assumes "update_target rows original stored"
    and "effective data ''sales_starts_at'' (map_option Ticket_sales_starts_at stored) = Some sv"
    and "effective data ''sales_ends_at'' (map_option Ticket_sales_ends_at stored) = Some ev"
  shows "validate_date rows data original =
           (case py_ge sv ev of
              Inl err \<Rightarrow> Inl err
            | Inr b \<Rightarrow>
                if b then Inl (UnprocessableEntity ''/data/attributes/sales-ends-at''
                                 (Literal ''sales-ends-at should be after sales-starts-at''))
                else Inr (data(''sales_starts_at'' \<mapsto> sv, ''sales_ends_at'' \<mapsto> ev)))"
  by (simp add: validate_date_def backfill_dates_effective [OF assms])

lemma find_distinct:
  "distinct (map f xs) \<Longrightarrow> a \<in> set xs \<Longrightarrow> find (\<lambda>r. f r = f a) xs = Some a"
  by (induction xs) (auto simp: image_iff)

lemma safe_query_PInt:
  "distinct (map f rows) \<Longrightarrow> a \<in> set rows \<Longrightarrow>
   safe_query rows name (\<lambda>r. PInt (f r)) (PInt (f a)) p = Inr a"
  by (simp add: safe_query_def find_distinct)

lemma safe_query_PStr:
  "distinct (map f rows) \<Longrightarrow> a \<in> set rows \<Longrightarrow>
   safe_query rows name (\<lambda>r. PStr (f r)) (PStr (f a)) p = Inr a"
  by (simp add: safe_query_def find_distinct)

lemma safe_query_missing:
  "\<forall>r \<in> set rows. column r \<noteq> v \<Longrightarrow>
   safe_query rows name column v p = Inl (ObjectNotFound p (Format ''{}: {} not found'' [PStr name, v]))"
proof -
  assume "\<forall>r \<in> set rows. column r \<noteq> v"
  then have "find (\<lambda>r. column r = v) rows = None"
    by (auto simp: find_None_iff)
  then show ?thesis by (simp add: safe_query_def)
qed

section \<open>The date validator\<close>

text \<open>
  C3, as the claim states it, fails for an update whose \<^verbatim>\<open>id\<close> names no stored ticket:
  the payload holds both dates, the start equal to the end, and what \<^verbatim>\<open>validate_date\<close>
  raises is \<^verbatim>\<open>NoResultFound\<close> from \<^verbatim>\<open>one()\<close> on line 31, before line 39 is reached.
\<close>

theorem validate_date_missing_ticket:
  "validate_date [ticket2]
     [''sales_starts_at'' \<mapsto> PDateTime (Aware 5), ''sales_ends_at'' \<mapsto> PDateTime (Aware 5)]
     \<lparr>data_id = Some 1\<rparr> = Inl NoResultFound"
  by (simp add: validate_date_def backfill_dates_def ticket2_def)

text \<open>
  C3, amended: let the payload be a create, or an update whose \<^verbatim>\<open>id\<close> names exactly one
  stored ticket, and let the effective start and the effective end (the payload's value,
  else the stored ticket's) both be datetimes, both naive or both aware. Then
  \<^verbatim>\<open>validate_date\<close> raises \<^verbatim>\<open>UnprocessableEntity\<close> with pointer
  \<^verbatim>\<open>/data/attributes/sales-ends-at\<close> if and only if the effective start is greater than or
  equal to the effective end; equal timestamps are rejected, and when the start is
  strictly before the end the validator returns normally, with both effective dates in the
  payload.
\<close>

theorem validate_date_iff:
  assumes "update_target rows original stored"
    and "effective data ''sales_starts_at'' (map_option Ticket_sales_starts_at stored) = Some (PDateTime s)"
    and "effective data ''sales_ends_at'' (map_option Ticket_sales_ends_at stored) = Some (PDateTime e)"
    and "(s = Naive a \<and> e = Naive b) \<or> (s = Aware a \<and> e = Aware b)"
  shows "(unprocessable_at ''/data/attributes/sales-ends-at'' (validate_date rows data original)
            \<longleftrightarrow> a \<ge> b) \<and>
         (a < b \<longrightarrow> validate_date rows data original =
                     Inr (data(''sales_starts_at'' \<mapsto> PDateTime s, ''sales_ends_at'' \<mapsto> PDateTime e)))"
  using assms(4)
  by (auto simp: validate_date_effective [OF assms(1,2,3)] py_ge_datetime split: if_splits)

theorem validate_date_iff_witness:
  "unprocessable_at ''/data/attributes/sales-ends-at''
     (validate_date []
        [''sales_starts_at'' \<mapsto> PDateTime (Naive 5), ''sales_ends_at'' \<mapsto> PDateTime (Naive 5)]
        \<lparr>data_id = None\<rparr>) \<and>
   validate_date []
        [''sales_starts_at'' \<mapsto> PDateTime (Aware 5), ''sales_ends_at'' \<mapsto> PDateTime (Aware 6)]
        \<lparr>data_id = None\<rparr>
     = Inr [''sales_starts_at'' \<mapsto> PDateTime (Aware 5), ''sales_ends_at'' \<mapsto> PDateTime (Aware 6)] \<and>
   unprocessable_at ''/data/attributes/sales-ends-at''
     (validate_date [ticket1, ticket2] [''sales_ends_at'' \<mapsto> PDateTime (Aware 100)]
        \<lparr>data_id = Some 1\<rparr>)"
proof -
  let ?eq = "[''sales_starts_at'' \<mapsto> PDateTime (Naive 5), ''sales_ends_at'' \<mapsto> PDateTime (Naive 5)]"
  let ?lt = "[''sales_starts_at'' \<mapsto> PDateTime (Aware 5), ''sales_ends_at'' \<mapsto> PDateTime (Aware 6)]"
  let ?up = "[''sales_ends_at'' \<mapsto> PDateTime (Aware 100)]"
  have c: "update_target [] \<lparr>data_id = None\<rparr> None"
    by (simp add: update_target_def)
  have u: "update_target [ticket1, ticket2] \<lparr>data_id = Some 1\<rparr> (Some ticket1)"
    by (simp add: update_target_def ticket1_def ticket2_def)
  have r1: "unprocessable_at ''/data/attributes/sales-ends-at''
              (validate_date [] ?eq \<lparr>data_id = None\<rparr>)"
    using validate_date_iff [OF c, of ?eq "Naive 5" "Naive 5" 5 5]
    by (simp add: effective_def)
  have "validate_date [] ?lt \<lparr>data_id = None\<rparr> =
          Inr (?lt(''sales_starts_at'' \<mapsto> PDateTime (Aware 5), ''sales_ends_at'' \<mapsto> PDateTime (Aware 6)))"
    using validate_date_iff [OF c, of ?lt "Aware 5" "Aware 6" 5 6]
    by (simp add: effective_def)
  moreover have "?lt(''sales_starts_at'' \<mapsto> PDateTime (Aware 5), ''sales_ends_at'' \<mapsto> PDateTime (Aware 6)) = ?lt"
    by (auto simp: fun_eq_iff)
  ultimately have r2: "validate_date [] ?lt \<lparr>data_id = None\<rparr> = Inr ?lt"
    by simp
  have r3: "unprocessable_at ''/data/attributes/sales-ends-at''
              (validate_date [ticket1, ticket2] ?up \<lparr>data_id = Some 1\<rparr>)"
    using validate_date_iff [OF u, of ?up "Aware 100" "Aware 100" 100 100]
    by (simp add: effective_def ticket1_def)
  from r1 r2 r3 show ?thesis by blast
qed

text \<open>
  C8: on an update whose \<^verbatim>\<open>id\<close> names exactly one stored ticket, each date has an
  effective value (the payload's, or the stored ticket's when the payload omits it);
  \<^verbatim>\<open>validate_date\<close> writes both into the payload, and line 39 is always reached and
  compares exactly these two, whichever of them the payload omitted: two naive or two
  aware datetimes are rejected when the start is not before the end and accepted
  otherwise, and a naive one against an aware one is the \<^verbatim>\<open>TypeError\<close> of the
  comparison.
\<close>

theorem validate_date_backfills:
  assumes "data_id original = Some i"
    and "filter (\<lambda>t. Ticket_id t = i) rows = [ticket]"
  shows "\<exists>sv ev.
           effective data ''sales_starts_at'' (Some (Ticket_sales_starts_at ticket)) = Some sv \<and>
           effective data ''sales_ends_at'' (Some (Ticket_sales_ends_at ticket)) = Some ev \<and>
           backfill_dates rows data original =
             Inr (data(''sales_starts_at'' \<mapsto> sv, ''sales_ends_at'' \<mapsto> ev)) \<and>
           validate_date rows data original =
             (case py_ge sv ev of
                Inl err \<Rightarrow> Inl err
              | Inr b \<Rightarrow>
                  if b then Inl (UnprocessableEntity ''/data/attributes/sales-ends-at''
                                   (Literal ''sales-ends-at should be after sales-starts-at''))
                  else Inr (data(''sales_starts_at'' \<mapsto> sv, ''sales_ends_at'' \<mapsto> ev))) \<and>
           (\<forall>a b. (sv = PDateTime (Naive a) \<and> ev = PDateTime (Naive b)) \<or>
                  (sv = PDateTime (Aware a) \<and> ev = PDateTime (Aware b))
              \<longrightarrow> validate_date rows data original =
                    (if a \<ge> b
                     then Inl (UnprocessableEntity ''/data/attributes/sales-ends-at''
                                 (Literal ''sales-ends-at should be after sales-starts-at''))
                     else Inr (data(''sales_starts_at'' \<mapsto> sv, ''sales_ends_at'' \<mapsto> ev)))) \<and>
           (\<forall>a b. (sv = PDateTime (Naive a) \<and> ev = PDateTime (Aware b)) \<or>
                  (sv = PDateTime (Aware a) \<and> ev = PDateTime (Naive b))
              \<longrightarrow> validate_date rows data original = Inl TypeError)"
proof -
  have u: "update_target rows original (Some ticket)"
    using assms by (simp add: update_target_def)
  obtain sv where sv: "effective data ''sales_starts_at'' (Some (Ticket_sales_starts_at ticket)) = Some sv"
    by (cases "data ''sales_starts_at''") (auto simp: effective_def)
  obtain ev where ev: "effective data ''sales_ends_at'' (Some (Ticket_sales_ends_at ticket)) = Some ev"
    by (cases "data ''sales_ends_at''") (auto simp: effective_def)
  have b: "backfill_dates rows data original =
             Inr (data(''sales_starts_at'' \<mapsto> sv, ''sales_ends_at'' \<mapsto> ev))"
    using backfill_dates_effective [OF u, of data sv ev] sv ev by simp
  have v: "validate_date rows data original =
             (case py_ge sv ev of
                Inl err \<Rightarrow> Inl err
              | Inr b \<Rightarrow>
                  if b then Inl (UnprocessableEntity ''/data/attributes/sales-ends-at''
                                   (Literal ''sales-ends-at should be after sales-starts-at''))
                  else Inr (data(''sales_starts_at'' \<mapsto> sv, ''sales_ends_at'' \<mapsto> ev)))"
    using validate_date_effective [OF u, of data sv ev] sv ev by simp
  have same: "\<forall>a b. (sv = PDateTime (Naive a) \<and> ev = PDateTime (Naive b)) \<or>
                  (sv = PDateTime (Aware a) \<and> ev = PDateTime (Aware b))
              \<longrightarrow> validate_date rows data original =
                    (if a \<ge> b
                     then Inl (UnprocessableEntity ''/data/attributes/sales-ends-at''
                                 (Literal ''sales-ends-at should be after sales-starts-at''))
                     else Inr (data(''sales_starts_at'' \<mapsto> sv, ''sales_ends_at'' \<mapsto> ev)))"
    by (auto simp: v py_ge_datetime)
  have mixed: "\<forall>a b. (sv = PDateTime (Naive a) \<and> ev = PDateTime (Aware b)) \<or>
                  (sv = PDateTime (Aware a) \<and> ev = PDateTime (Naive b))
              \<longrightarrow> validate_date rows data original = Inl TypeError"
    by (auto simp: v py_ge_datetime)
  from sv ev b v same mixed show ?thesis by blast
qed

theorem validate_date_backfills_witness:
  "unprocessable_at ''/data/attributes/sales-ends-at''
     (validate_date [ticket1, ticket2] [''sales_ends_at'' \<mapsto> PDateTime (Aware 50)]
        \<lparr>data_id = Some 1\<rparr>) \<and>
   validate_date [ticket1, ticket2] Map.empty \<lparr>data_id = Some 1\<rparr>
     = Inr [''sales_starts_at'' \<mapsto> PDateTime (Aware 100), ''sales_ends_at'' \<mapsto> PDateTime (Aware 200)] \<and>
   validate_date [ticket1, ticket2] [''sales_starts_at'' \<mapsto> PDateTime (Naive 10)]
        \<lparr>data_id = Some 1\<rparr> = Inl TypeError"
proof -
  have f: "filter (\<lambda>t. Ticket_id t = 1) [ticket1, ticket2] = [ticket1]"
    by (simp add: ticket1_def ticket2_def)
  have o: "data_id \<lparr>data_id = Some 1\<rparr> = Some 1"
    by simp
  from validate_date_backfills [OF o f, of "[''sales_ends_at'' \<mapsto> PDateTime (Aware 50)]"]
  have r1: "unprocessable_at ''/data/attributes/sales-ends-at''
     (validate_date [ticket1, ticket2] [''sales_ends_at'' \<mapsto> PDateTime (Aware 50)]
        \<lparr>data_id = Some 1\<rparr>)"
    by (auto simp: effective_def ticket1_def py_ge_datetime)
  from validate_date_backfills [OF o f, of Map.empty]
  have r2: "validate_date [ticket1, ticket2] Map.empty \<lparr>data_id = Some 1\<rparr>
     = Inr [''sales_starts_at'' \<mapsto> PDateTime (Aware 100), ''sales_ends_at'' \<mapsto> PDateTime (Aware 200)]"
    by (auto simp: effective_def ticket1_def py_ge_datetime)
  from validate_date_backfills [OF o f, of "[''sales_starts_at'' \<mapsto> PDateTime (Naive 10)]"]
  have r3: "validate_date [ticket1, ticket2] [''sales_starts_at'' \<mapsto> PDateTime (Naive 10)]
        \<lparr>data_id = Some 1\<rparr> = Inl TypeError"
    by (auto simp: effective_def ticket1_def py_ge_datetime)
  from r1 r2 r3 show ?thesis by blast
qed

section \<open>The quantity validator\<close>

text \<open>
  C4: when the payload holds integers for both \<^verbatim>\<open>max_order\<close> and \<^verbatim>\<open>min_order\<close>,
  \<^verbatim>\<open>validate_quantity\<close> raises \<^verbatim>\<open>UnprocessableEntity\<close> with pointer
  \<^verbatim>\<open>/data/attributes/max-order\<close> if and only if \<^verbatim>\<open>max_order < min_order\<close>; equal values
  are accepted.
\<close>

theorem validate_quantity_max_order:
  assumes "data ''max_order'' = Some (PInt mx)" and "data ''min_order'' = Some (PInt mn)"
  shows "unprocessable_at ''/data/attributes/max-order'' (validate_quantity data) \<longleftrightarrow> mx < mn"
  using assms
  by (auto simp: validate_quantity_def check_max_order_def check_quantity_def py_lt_int
           dest: py_lt_error split: option.splits sum.splits if_splits)

theorem validate_quantity_max_order_witness:
  "unprocessable_at ''/data/attributes/max-order''
     (validate_quantity [''max_order'' \<mapsto> PInt 2, ''min_order'' \<mapsto> PInt 3]) \<and>
   \<not> unprocessable_at ''/data/attributes/max-order''
     (validate_quantity [''max_order'' \<mapsto> PInt 3, ''min_order'' \<mapsto> PInt 3])"
  using validate_quantity_max_order [of "[''max_order'' \<mapsto> PInt 2, ''min_order'' \<mapsto> PInt 3]" 2 3]
    validate_quantity_max_order [of "[''max_order'' \<mapsto> PInt 3, ''min_order'' \<mapsto> PInt 3]" 3 3]
  by simp

text \<open>
  C5: when the payload holds integers for both \<^verbatim>\<open>quantity\<close> and \<^verbatim>\<open>min_order\<close> and the
  check of \<^verbatim>\<open>max_order\<close> against \<^verbatim>\<open>min_order\<close> has passed, \<^verbatim>\<open>validate_quantity\<close> raises
  \<^verbatim>\<open>UnprocessableEntity\<close> with pointer \<^verbatim>\<open>/data/attributes/quantity\<close> if and only if
  \<^verbatim>\<open>quantity < min_order\<close>.
\<close>

theorem validate_quantity_quantity:
  assumes "data ''quantity'' = Some (PInt q)" and "data ''min_order'' = Some (PInt mn)"
    and "check_max_order data = Inr ()"
  shows "unprocessable_at ''/data/attributes/quantity'' (validate_quantity data) \<longleftrightarrow> q < mn"
  using assms
  by (auto simp: validate_quantity_def check_quantity_def py_lt_int)

theorem validate_quantity_quantity_witness:
  "check_max_order [''quantity'' \<mapsto> PInt 2, ''min_order'' \<mapsto> PInt 3, ''max_order'' \<mapsto> PInt 4] = Inr () \<and>
   unprocessable_at ''/data/attributes/quantity''
     (validate_quantity [''quantity'' \<mapsto> PInt 2, ''min_order'' \<mapsto> PInt 3, ''max_order'' \<mapsto> PInt 4]) \<and>
   check_max_order [''quantity'' \<mapsto> PInt 3, ''min_order'' \<mapsto> PInt 3] = Inr () \<and>
   \<not> unprocessable_at ''/data/attributes/quantity''
     (validate_quantity [''quantity'' \<mapsto> PInt 3, ''min_order'' \<mapsto> PInt 3])"
proof -
  have c1: "check_max_order [''quantity'' \<mapsto> PInt 2, ''min_order'' \<mapsto> PInt 3, ''max_order'' \<mapsto> PInt 4] = Inr ()"
    and c2: "check_max_order [''quantity'' \<mapsto> PInt 3, ''min_order'' \<mapsto> PInt 3] = Inr ()"
    by (simp_all add: check_max_order_def py_lt_int)
  show ?thesis
    using c1 c2
      validate_quantity_quantity [OF _ _ c1, of 2 3]
      validate_quantity_quantity [OF _ _ c2, of 3 3]
    by simp
qed

text \<open>
  C9: \<^verbatim>\<open>validate_quantity\<close> reads the payload alone (no stored ticket is among its
  arguments). Whenever the payload has no \<^verbatim>\<open>min_order\<close>, both checks are skipped and
  the payload is accepted, whatever \<^verbatim>\<open>max_order\<close> and \<^verbatim>\<open>quantity\<close> it holds.
\<close>

theorem validate_quantity_no_min_order:
  assumes "data ''min_order'' = None"
  shows "validate_quantity data = Inr ()"
  using assms
  by (simp add: validate_quantity_def check_quantity_def check_max_order_def split: option.splits)

theorem validate_quantity_no_min_order_witness:
  "validate_quantity [''max_order'' \<mapsto> PInt 1, ''quantity'' \<mapsto> PInt 0] = Inr ()"
  by (rule validate_quantity_no_min_order) simp

section \<open>The field validators\<close>

text \<open>
  C10: the fields \<^verbatim>\<open>price\<close>, \<^verbatim>\<open>quantity\<close>, \<^verbatim>\<open>min_order\<close> and \<^verbatim>\<open>max_order\<close> refuse every
  negative value, accept zero, and accept \<^verbatim>\<open>None\<close>.
\<close>

theorem field_validators:
  "(n < 0 \<longrightarrow> deserialize quantity (PInt n) = Inl ValidationError \<and>
              deserialize min_order (PInt n) = Inl ValidationError \<and>
              deserialize max_order (PInt n) = Inl ValidationError) \<and>
   (x < 0 \<longrightarrow> deserialize price (PFloat x) = Inl ValidationError) \<and>
   deserialize quantity (PInt 0) = Inr (PInt 0) \<and>
   deserialize min_order (PInt 0) = Inr (PInt 0) \<and>
   deserialize max_order (PInt 0) = Inr (PInt 0) \<and>
   deserialize price (PFloat 0) = Inr (PFloat 0) \<and>
   deserialize price PNone = Inr PNone \<and>
   deserialize quantity PNone = Inr PNone \<and>
   deserialize min_order PNone = Inr PNone \<and>
   deserialize max_order PNone = Inr PNone"
  by (simp add: deserialize_def price_def quantity_def min_order_def max_order_def nonneg_def py_ge_def)

theorem field_validators_witness:
  "deserialize quantity (PInt (- 1)) = Inl ValidationError \<and>
   deserialize min_order (PInt (- 1)) = Inl ValidationError \<and>
   deserialize max_order (PInt (- 1)) = Inl ValidationError \<and>
   deserialize price (PFloat (- 1 / 2)) = Inl ValidationError \<and>
   deserialize price (PFloat 0) = Inr (PFloat 0)"
  using field_validators [of "- 1" "- 1 / 2"] by simp

section \<open>Creating a ticket\<close>

text \<open>
  C2: the claim is that a creation request naming an event the requester may not
  co-organise is answered with \<^verbatim>\<open>ObjectNotFound\<close> for \<^verbatim>\<open>event_id\<close>. The code tests
  \<^verbatim>\<open>data['event']\<close> but builds the text of the error from \<^verbatim>\<open>data['event_id']\<close>: whenever
  the payload has an \<^verbatim>\<open>event\<close> without access and no key \<^verbatim>\<open>event_id\<close>, what
  \<^verbatim>\<open>before_post\<close> raises is \<^verbatim>\<open>KeyError\<close>.
\<close>

theorem before_post_key_error:
  assumes "require_relationship [''event''] data = Inr ()"
    and "data ''event'' = Some ev"
    and "\<not> has_access ''is_coorganizer'' ev"
    and "data ''event_id'' = None"
  shows "before_post require_relationship has_access data = Inl (KeyError ''event_id'')"
  using assms by (simp add: before_post_def)

theorem before_post_key_error_witness:
  "before_post (\<lambda>names data. Inr ()) (\<lambda>permission event_id. False)
     [''name'' \<mapsto> PStr ''Early bird'', ''event'' \<mapsto> PInt 7] = Inl (KeyError ''event_id'')"
  by (rule before_post_key_error [where ev = "PInt 7"]) simp_all

section \<open>Listing tickets\<close>

text \<open>
  C1: the claim is that a ticket-tag filter and an access-code filter compose. On the
  example database, with \<^verbatim>\<open>ticket_tag_id\<close> 10 and \<^verbatim>\<open>access_code_id\<close> 20 both given,
  \<^verbatim>\<open>TicketList.query\<close> returns ticket 2, which does not carry tag 10: the access-code
  branch starts again from \<^verbatim>\<open>Ticket.query\<close>. With the tag alone the query is ticket 1.
\<close>

theorem query_access_code_drops_tag:
  "TicketList_query db1 event_query_none [''ticket_tag_id'' \<mapsto> PInt 10, ''access_code_id'' \<mapsto> PInt 20]
     = Inr ([ticket2], [''ticket_tag_id'' \<mapsto> PInt 10, ''access_code_id'' \<mapsto> PInt 20]) \<and>
   (Ticket_id ticket2, 10) \<notin> set (ticket_tags_table db1) \<and>
   TicketList_query db1 event_query_none [''ticket_tag_id'' \<mapsto> PInt 10]
     = Inr ([ticket1], [''ticket_tag_id'' \<mapsto> PInt 10])"
  by (simp add: TicketList_query_def query_upto_access_code_def query_order_def safe_query_def
        get_def event_query_none_def db1_def ticket1_def ticket2_def)

text \<open>
  C6, as the claim states it, fails for an \<^verbatim>\<open>order_id\<close> that Python takes for false:
  order 0 does not exist in the example database, and a request with \<^verbatim>\<open>order_id\<close> 0
  gets every ticket and no error.
\<close>

theorem query_order_id_zero:
  "0 \<notin> set (map Order_id (Order_rows db1)) \<and>
   TicketList_query db1 event_query_none [''order_id'' \<mapsto> PInt 0]
     = Inr ([ticket1, ticket2], [''order_id'' \<mapsto> PInt 0])"
  by (simp add: TicketList_query_def query_upto_access_code_def query_order_def
        get_def event_query_none_def db1_def order7_def)

text \<open>
  C6, amended: let the first part of \<^verbatim>\<open>TicketList.query\<close> build the query \<open>q\<close>, and let
  order ids and order identifiers be unique. Then
  \<^item> a true (non-zero) \<^verbatim>\<open>order_id\<close> that names an existing order, given without a true
    \<^verbatim>\<open>order_identifier\<close>, restricts \<open>q\<close> to the tickets whose id is among the ids of
    that order's tickets;
  \<^item> a true (non-empty) \<^verbatim>\<open>order_identifier\<close> that names an existing order with a
    non-zero id does the same and stores that id under \<^verbatim>\<open>order_id\<close>;
  \<^item> a true \<^verbatim>\<open>order_identifier\<close> naming no order is \<^verbatim>\<open>ObjectNotFound\<close> for
    \<^verbatim>\<open>order_identifer\<close>, and a true \<^verbatim>\<open>order_id\<close> naming no order (without a true
    \<^verbatim>\<open>order_identifier\<close>) is \<^verbatim>\<open>ObjectNotFound\<close> for \<^verbatim>\<open>order_id\<close>;
  \<^item> when neither is true, \<open>q\<close> is returned as it is.
\<close>

theorem query_order_filter:
  assumes "query_upto_access_code db event_query view_kwargs = Inr q"
    and "distinct (map Order_id (Order_rows db))"
    and "distinct (map Order_identifer (Order_rows db))"
  shows
    "(\<not> truthy (get view_kwargs ''order_identifier'') \<and> ord \<in> set (Order_rows db) \<and>
      get view_kwargs ''order_id'' = PInt (Order_id ord) \<and> Order_id ord \<noteq> 0
        \<longrightarrow> TicketList_query db event_query view_kwargs =
              Inr (filter (\<lambda>t. Ticket_id t \<in> set (map Ticket_id (Order_tickets ord))) q,
                   view_kwargs)) \<and>
     (ord \<in> set (Order_rows db) \<and>
      get view_kwargs ''order_identifier'' = PStr (Order_identifer ord) \<and>
      Order_identifer ord \<noteq> [] \<and> Order_id ord \<noteq> 0
        \<longrightarrow> TicketList_query db event_query view_kwargs =
              Inr (filter (\<lambda>t. Ticket_id t \<in> set (map Ticket_id (Order_tickets ord))) q,
                   view_kwargs(''order_id'' \<mapsto> PInt (Order_id ord)))) \<and>
     (truthy (get view_kwargs ''order_identifier'') \<and>
      (\<forall>r \<in> set (Order_rows db). PStr (Order_identifer r) \<noteq> get view_kwargs ''order_identifier'')
        \<longrightarrow> not_found_for ''order_identifer'' (TicketList_query db event_query view_kwargs)) \<and>
     (\<not> truthy (get view_kwargs ''order_identifier'') \<and> truthy (get view_kwargs ''order_id'') \<and>
      (\<forall>r \<in> set (Order_rows db). PInt (Order_id r) \<noteq> get view_kwargs ''order_id'')
        \<longrightarrow> not_found_for ''order_id'' (TicketList_query db event_query view_kwargs)) \<and>
     (\<not> truthy (get view_kwargs ''order_identifier'') \<and> \<not> truthy (get view_kwargs ''order_id'')
        \<longrightarrow> TicketList_query db event_query view_kwargs = Inr (q, view_kwargs))"
proof (intro conjI impI)
  assume a: "\<not> truthy (get view_kwargs ''order_identifier'') \<and> ord \<in> set (Order_rows db) \<and>
      get view_kwargs ''order_id'' = PInt (Order_id ord) \<and> Order_id ord \<noteq> 0"
  then have "safe_query (Order_rows db) ''Order'' (\<lambda>r. PInt (Order_id r))
               (get view_kwargs ''order_id'') ''order_id'' = Inr ord"
    using assms(2) by (simp add: safe_query_PInt)
  with a assms(1) show "TicketList_query db event_query view_kwargs =
      Inr (filter (\<lambda>t. Ticket_id t \<in> set (map Ticket_id (Order_tickets ord))) q, view_kwargs)"
    by (simp add: TicketList_query_def query_order_def)
next
  assume a: "ord \<in> set (Order_rows db) \<and>
      get view_kwargs ''order_identifier'' = PStr (Order_identifer ord) \<and>
      Order_identifer ord \<noteq> [] \<and> Order_id ord \<noteq> 0"
  then have 1: "safe_query (Order_rows db) ''Order'' (\<lambda>r. PStr (Order_identifer r))
               (get view_kwargs ''order_identifier'') ''order_identifer'' = Inr ord"
    using assms(3) by (simp add: safe_query_PStr)
  from a have 2: "safe_query (Order_rows db) ''Order'' (\<lambda>r. PInt (Order_id r))
               (PInt (Order_id ord)) ''order_id'' = Inr ord"
    using assms(2) by (simp add: safe_query_PInt)
  from a 1 2 assms(1) show "TicketList_query db event_query view_kwargs =
      Inr (filter (\<lambda>t. Ticket_id t \<in> set (map Ticket_id (Order_tickets ord))) q,
           view_kwargs(''order_id'' \<mapsto> PInt (Order_id ord)))"
    by (simp add: TicketList_query_def query_order_def get_def)
next
  assume a: "truthy (get view_kwargs ''order_identifier'') \<and>
      (\<forall>r \<in> set (Order_rows db). PStr (Order_identifer r) \<noteq> get view_kwargs ''order_identifier'')"
  then show "not_found_for ''order_identifer'' (TicketList_query db event_query view_kwargs)"
    using assms(1) by (simp add: TicketList_query_def query_order_def safe_query_missing)
next
  assume a: "\<not> truthy (get view_kwargs ''order_identifier'') \<and> truthy (get view_kwargs ''order_id'') \<and>
      (\<forall>r \<in> set (Order_rows db). PInt (Order_id r) \<noteq> get view_kwargs ''order_id'')"
  then show "not_found_for ''order_id'' (TicketList_query db event_query view_kwargs)"
    using assms(1) by (simp add: TicketList_query_def query_order_def safe_query_missing)
next
  assume "\<not> truthy (get view_kwargs ''order_identifier'') \<and> \<not> truthy (get view_kwargs ''order_id'')"
  then show "TicketList_query db event_query view_kwargs = Inr (q, view_kwargs)"
    using assms(1) by (simp add: TicketList_query_def query_order_def)
qed

theorem query_order_filter_witness:
  "TicketList_query db1 event_query_none [''order_id'' \<mapsto> PInt 7]
     = Inr ([ticket1], [''order_id'' \<mapsto> PInt 7]) \<and>
   TicketList_query db1 event_query_none [''order_identifier'' \<mapsto> PStr ''abc'']
     = Inr ([ticket1], [''order_identifier'' \<mapsto> PStr ''abc'', ''order_id'' \<mapsto> PInt 7]) \<and>
   not_found_for ''order_identifer''
     (TicketList_query db1 event_query_none [''order_identifier'' \<mapsto> PStr ''xyz'']) \<and>
   not_found_for ''order_id'' (TicketList_query db1 event_query_none [''order_id'' \<mapsto> PInt 8]) \<and>
   TicketList_query db1 event_query_none Map.empty = Inr ([ticket1, ticket2], Map.empty)"
proof -
  have q: "\<And>view_kwargs. \<not> truthy (get view_kwargs ''ticket_tag_id'') \<Longrightarrow>
             \<not> truthy (get view_kwargs ''access_code_id'') \<Longrightarrow>
             query_upto_access_code db1 event_query_none view_kwargs = Inr [ticket1, ticket2]"
    by (simp add: query_upto_access_code_def event_query_none_def db1_def)
  have d1: "distinct (map Order_id (Order_rows db1))"
    and d2: "distinct (map Order_identifer (Order_rows db1))"
    by (simp_all add: db1_def)
  have q1: "query_upto_access_code db1 event_query_none [''order_id'' \<mapsto> PInt 7] = Inr [ticket1, ticket2]"
    and q2: "query_upto_access_code db1 event_query_none [''order_identifier'' \<mapsto> PStr ''abc'']
               = Inr [ticket1, ticket2]"
    and q3: "query_upto_access_code db1 event_query_none [''order_identifier'' \<mapsto> PStr ''xyz'']
               = Inr [ticket1, ticket2]"
    and q4: "query_upto_access_code db1 event_query_none [''order_id'' \<mapsto> PInt 8] = Inr [ticket1, ticket2]"
    and q5: "query_upto_access_code db1 event_query_none Map.empty = Inr [ticket1, ticket2]"
    by (simp_all add: q get_def)
  have r1: "TicketList_query db1 event_query_none [''order_id'' \<mapsto> PInt 7]
              = Inr ([ticket1], [''order_id'' \<mapsto> PInt 7])"
    using query_order_filter [OF q1 d1 d2, of order7]
    by (simp add: get_def db1_def order7_def ticket1_def ticket2_def)
  have r2: "TicketList_query db1 event_query_none [''order_identifier'' \<mapsto> PStr ''abc'']
              = Inr ([ticket1], [''order_identifier'' \<mapsto> PStr ''abc'', ''order_id'' \<mapsto> PInt 7])"
    using query_order_filter [OF q2 d1 d2, of order7]
    by (simp add: get_def db1_def order7_def ticket1_def ticket2_def)
  have r3: "not_found_for ''order_identifer''
              (TicketList_query db1 event_query_none [''order_identifier'' \<mapsto> PStr ''xyz''])"
    using query_order_filter [OF q3 d1 d2, of order7]
    by (simp add: get_def db1_def order7_def)
  have r4: "not_found_for ''order_id'' (TicketList_query db1 event_query_none [''order_id'' \<mapsto> PInt 8])"
    using query_order_filter [OF q4 d1 d2, of order7]
    by (simp add: get_def db1_def order7_def)
  have r5: "TicketList_query db1 event_query_none Map.empty = Inr ([ticket1, ticket2], Map.empty)"
    using query_order_filter [OF q5 d1 d2, of order7]
    by (simp add: get_def)
  from r1 r2 r3 r4 r5 show ?thesis by blast
qed

section \<open>Fetching one ticket\<close>

text \<open>
  C7: let \<^verbatim>\<open>view_kwargs\<close> carry an \<^verbatim>\<open>attendee_id\<close> (a value that is not \<^verbatim>\<open>None\<close>), and let
  attendee ids be unique. If no attendee has that id, \<^verbatim>\<open>before_get_object\<close> raises
  \<^verbatim>\<open>ObjectNotFound\<close> for \<^verbatim>\<open>attendee_id\<close>; if the attendee exists and holds a ticket,
  \<^verbatim>\<open>view_kwargs['id']\<close> becomes that ticket's id; if the attendee holds none, it becomes
  \<^verbatim>\<open>None\<close>.
\<close>

theorem before_get_object_attendee:
  assumes "get view_kwargs ''attendee_id'' \<noteq> PNone"
    and "distinct (map TicketHolder_id (TicketHolder_rows db))"
  shows "((\<forall>r \<in> set (TicketHolder_rows db). PInt (TicketHolder_id r) \<noteq> get view_kwargs ''attendee_id'')
            \<longrightarrow> not_found_for ''attendee_id'' (before_get_object db view_kwargs)) \<and>
         (attendee \<in> set (TicketHolder_rows db) \<and>
          get view_kwargs ''attendee_id'' = PInt (TicketHolder_id attendee) \<and>
          TicketHolder_ticket_id attendee = Some t
            \<longrightarrow> before_get_object db view_kwargs = Inr (view_kwargs(''id'' \<mapsto> PInt t))) \<and>
         (attendee \<in> set (TicketHolder_rows db) \<and>
          get view_kwargs ''attendee_id'' = PInt (TicketHolder_id attendee) \<and>
          TicketHolder_ticket_id attendee = None
            \<longrightarrow> before_get_object db view_kwargs = Inr (view_kwargs(''id'' \<mapsto> PNone)))"
proof (intro conjI impI)
  assume "\<forall>r \<in> set (TicketHolder_rows db). PInt (TicketHolder_id r) \<noteq> get view_kwargs ''attendee_id''"
  then show "not_found_for ''attendee_id'' (before_get_object db view_kwargs)"
    using assms(1) by (simp add: before_get_object_def safe_query_missing)
next
  assume a: "attendee \<in> set (TicketHolder_rows db) \<and>
          get view_kwargs ''attendee_id'' = PInt (TicketHolder_id attendee) \<and>
          TicketHolder_ticket_id attendee = Some t"
  then have "safe_query (TicketHolder_rows db) ''TicketHolder'' (\<lambda>r. PInt (TicketHolder_id r))
               (get view_kwargs ''attendee_id'') ''attendee_id'' = Inr attendee"
    using assms(2) by (simp add: safe_query_PInt)
  with a show "before_get_object db view_kwargs = Inr (view_kwargs(''id'' \<mapsto> PInt t))"
    by (simp add: before_get_object_def)
next
  assume a: "attendee \<in> set (TicketHolder_rows db) \<and>
          get view_kwargs ''attendee_id'' = PInt (TicketHolder_id attendee) \<and>
          TicketHolder_ticket_id attendee = None"
  then have "safe_query (TicketHolder_rows db) ''TicketHolder'' (\<lambda>r. PInt (TicketHolder_id r))
               (get view_kwargs ''attendee_id'') ''attendee_id'' = Inr attendee"
    using assms(2) by (simp add: safe_query_PInt)
  with a show "before_get_object db view_kwargs = Inr (view_kwargs(''id'' \<mapsto> PNone))"
    by (simp add: before_get_object_def)
qed

theorem before_get_object_attendee_witness:
  "not_found_for ''attendee_id'' (before_get_object db1 [''attendee_id'' \<mapsto> PInt 9]) \<and>
   before_get_object db1 [''attendee_id'' \<mapsto> PInt 0]
     = Inr [''attendee_id'' \<mapsto> PInt 0, ''id'' \<mapsto> PInt 2] \<and>
   before_get_object db1 [''attendee_id'' \<mapsto> PInt 5]
     = Inr [''attendee_id'' \<mapsto> PInt 5, ''id'' \<mapsto> PNone]"
proof -
  have d: "distinct (map TicketHolder_id (TicketHolder_rows db1))"
    by (simp add: db1_def attendee0_def attendee5_def)
  have g9: "get [''attendee_id'' \<mapsto> PInt 9] ''attendee_id'' \<noteq> PNone"
    and g0: "get [''attendee_id'' \<mapsto> PInt 0] ''attendee_id'' \<noteq> PNone"
    and g5: "get [''attendee_id'' \<mapsto> PInt 5] ''attendee_id'' \<noteq> PNone"
    by (simp_all add: get_def)
  have r9: "not_found_for ''attendee_id'' (before_get_object db1 [''attendee_id'' \<mapsto> PInt 9])"
    using before_get_object_attendee [OF g9 d, of attendee0 2]
    by (simp add: get_def db1_def attendee0_def attendee5_def)
  have r0: "before_get_object db1 [''attendee_id'' \<mapsto> PInt 0]
              = Inr [''attendee_id'' \<mapsto> PInt 0, ''id'' \<mapsto> PInt 2]"
    using before_get_object_attendee [OF g0 d, of attendee0 2]
    by (simp add: get_def db1_def attendee0_def attendee5_def)
  have r5: "before_get_object db1 [''attendee_id'' \<mapsto> PInt 5]
              = Inr [''attendee_id'' \<mapsto> PInt 5, ''id'' \<mapsto> PNone]"
    using before_get_object_attendee [OF g5 d, of attendee5 2]
    by (simp add: get_def db1_def attendee0_def attendee5_def)
  from r9 r0 r5 show ?thesis by blast
qed

end
